theory Spec2Isabelle
  imports Main "HOL-Library.Sublist"
begin

section \<open>Data model\<close>

text \<open>
  The appointment records handled by the front end are plain JavaScript objects whose
  fields are strings (ids, ISO timestamps, status words, free text) or are absent.
  A field value is therefore \<open>undefined\<close>, \<open>null\<close> or a string; an object is the
  list of its own properties in insertion order.
\<close>

datatype jsval = JUndefined | JNull | JStr string

type_synonym jsobject = "(string \<times> jsval) list"

text \<open>Property read \<open>obj.k\<close>: an absent property reads as \<open>undefined\<close>.\<close>

definition getField :: "jsobject \<Rightarrow> string \<Rightarrow> jsval" where
  "getField obj k = (case map_of obj k of None \<Rightarrow> JUndefined | Some v \<Rightarrow> v)"

text \<open>
  Object spread with one overriding property, \<open>{ ...obj, k: v }\<close>: a fresh object in which
  an existing property \<open>k\<close> keeps its position and gets the value \<open>v\<close>, and a missing one is
  appended.
\<close>

fun setField :: "string \<Rightarrow> jsval \<Rightarrow> jsobject \<Rightarrow> jsobject" where
  "setField k v [] = [(k, v)]"
| "setField k v ((k', v') # ps) =
     (if k' = k then (k, v) # ps else (k', v') # setField k v ps)"

text \<open>
  The replace-by-id map of the optimistic update,
  \<open>appointments.map(apt => apt.id === appointmentId ? { ...apt, payment_status: v } : apt)\<close>.
  The source writes the field \<open>payment_status\<close>; the field name is a parameter here.
\<close>

definition applyLocalStatus :: "jsobject list \<Rightarrow> jsval \<Rightarrow> string \<Rightarrow> jsval \<Rightarrow> jsobject list" where
  "applyLocalStatus appointments appointmentId field v =
     map (\<lambda>apt. if getField apt ''id'' = appointmentId then setField field v apt else apt)
       appointments"

subsection \<open>Strings\<close>

text \<open>
  Strings are modelled over the ASCII range: \<open>toLowerCase\<close> and \<open>toUpperCase\<close> map the
  26 Latin letters and leave every other character alone.
\<close>

definition toLowerChar :: "char \<Rightarrow> char" where
  "toLowerChar c =
     (case map_of (zip ''ABCDEFGHIJKLMNOPQRSTUVWXYZ'' ''abcdefghijklmnopqrstuvwxyz'') c of
        Some l \<Rightarrow> l | None \<Rightarrow> c)"


definition toLowerCase :: "string \<Rightarrow> string" where
  "toLowerCase s = map toLowerChar s"

text \<open>\<open>hay.includes(needle)\<close>: the needle occurs as a contiguous run of the haystack.\<close>

fun includes_str :: "string \<Rightarrow> string \<Rightarrow> bool" where
  "includes_str [] n = (n = [])"
| "includes_str (c # cs) n = (prefix n (c # cs) \<or> includes_str cs n)"

text \<open>Interpolation of a value into a template literal.\<close>

fun toStringJS :: "jsval \<Rightarrow> string" where
  "toStringJS JUndefined = ''undefined''"
| "toStringJS JNull = ''null''"
| "toStringJS (JStr s) = s"


subsection \<open>Transport and user notices\<close>

datatype http_method = GET | PUT | PATCH

text \<open>
  One axios call: method, URL, the query parameters of the config argument and the request
  body (\<open>None\<close> for \<open>null\<close> or no body, \<open>Some []\<close> for the empty object).
\<close>

record request =
  req_method :: http_method
  req_url :: string
  req_params :: "(string \<times> jsval) list"
  req_body :: "jsobject option"

text \<open>
  A settled request: resolved with the response data, or rejected; the rejection carries
  \<open>error.response?.data?.detail\<close> when the server sent one.
\<close>

datatype 'a response = Resolved 'a | Rejected "string option"

record user =
  user_id :: jsval
  full_name :: string

text \<open>
  The HTTP collaborator. It has a state of its own (\<open>'t\<close>), so that the answer to a
  request may depend on everything sent before. The endpoints are typed by what the
  front end reads from them: mutations (the response body is ignored), the appointment
  list, the user lists and the statistics document.
\<close>

record 't transport =
  send :: "request \<Rightarrow> 't \<Rightarrow> unit response \<times> 't"
  fetchRows :: "request \<Rightarrow> 't \<Rightarrow> jsobject list response \<times> 't"
  fetchUsers :: "request \<Rightarrow> 't \<Rightarrow> user list response \<times> 't"
  fetchDoc :: "request \<Rightarrow> 't \<Rightarrow> jsobject response \<times> 't"

datatype notice =
  ToastSuccess string | ToastError string | ToastInfo string | ConsoleError string

text \<open>
  Everything outside the component: the state of the server, the requests issued so far
  (oldest first) and the notices shown so far (oldest first).
\<close>

record 't world =
  server :: 't
  sent :: "request list"
  notices :: "notice list"

definition notify :: "notice \<Rightarrow> 't world \<Rightarrow> 't world" where
  "notify n w = w\<lparr>notices := notices w @ [n]\<rparr>"

definition axios_send :: "'t transport \<Rightarrow> request \<Rightarrow> 't world \<Rightarrow> unit response \<times> 't world" where
  "axios_send T r w =
     (case send T r (server w) of (res, s') \<Rightarrow> (res, w\<lparr>server := s', sent := sent w @ [r]\<rparr>))"

definition axios_rows :: "'t transport \<Rightarrow> request \<Rightarrow> 't world \<Rightarrow> jsobject list response \<times> 't world" where
  "axios_rows T r w =
     (case fetchRows T r (server w) of (res, s') \<Rightarrow> (res, w\<lparr>server := s', sent := sent w @ [r]\<rparr>))"

definition axios_users :: "'t transport \<Rightarrow> request \<Rightarrow> 't world \<Rightarrow> user list response \<times> 't world" where
  "axios_users T r w =
     (case fetchUsers T r (server w) of (res, s') \<Rightarrow> (res, w\<lparr>server := s', sent := sent w @ [r]\<rparr>))"

definition axios_doc :: "'t transport \<Rightarrow> request \<Rightarrow> 't world \<Rightarrow> jsobject response \<times> 't world" where
  "axios_doc T r w =
     (case fetchDoc T r (server w) of (res, s') \<Rightarrow> (res, w\<lparr>server := s', sent := sent w @ [r]\<rparr>))"

text \<open>\<open>axios.get(url)\<close>.\<close>

definition get_request :: "string \<Rightarrow> request" where
  "get_request url = \<lparr>req_method = GET, req_url = url, req_params = [], req_body = None\<rparr>"

text \<open>
  The request shapes of the payment-status chain and of the lifecycle-status update.

  \<^item> \<open>axios.patch(`/appointments/${id}/payment-status`, {}, { params: { payment_status } })\<close>
  \<^item> \<open>axios.put(`/appointments/${id}`, { payment_status })\<close>
  \<^item> \<open>axios.patch(`/appointments/${id}`, { payment_status })\<close>
  \<^item> \<open>axios.put(`/appointments/${id}`, null, { params: { status } })\<close>
\<close>

definition patch_payment_param :: "jsval \<Rightarrow> string \<Rightarrow> request" where
  "patch_payment_param appointmentId paymentStatus =
     \<lparr>req_method = PATCH,
      req_url = ''/appointments/'' @ toStringJS appointmentId @ ''/payment-status'',
      req_params = [(''payment_status'', JStr paymentStatus)],
      req_body = Some []\<rparr>"

definition put_payment_body :: "jsval \<Rightarrow> string \<Rightarrow> request" where
  "put_payment_body appointmentId paymentStatus =
     \<lparr>req_method = PUT,
      req_url = ''/appointments/'' @ toStringJS appointmentId,
      req_params = [],
      req_body = Some [(''payment_status'', JStr paymentStatus)]\<rparr>"

definition patch_payment_body :: "jsval \<Rightarrow> string \<Rightarrow> request" where
  "patch_payment_body appointmentId paymentStatus =
     \<lparr>req_method = PATCH,
      req_url = ''/appointments/'' @ toStringJS appointmentId,
      req_params = [],
      req_body = Some [(''payment_status'', JStr paymentStatus)]\<rparr>"

definition put_status_param :: "jsval \<Rightarrow> string \<Rightarrow> request" where
  "put_status_param appointmentId status =
     \<lparr>req_method = PUT,
      req_url = ''/appointments/'' @ toStringJS appointmentId,
      req_params = [(''status'', JStr status)],
      req_body = None\<rparr>"

section \<open>AdminDashboard\<close>

record admin_state =
  stats :: jsobject
  recentUsers :: "user list"
  recentAppointments :: "jsobject list"
  loading :: bool

text \<open>The values of the four \<open>useState\<close> calls.\<close>

definition admin_initial :: admin_state where
  "admin_initial = \<lparr>stats = [], recentUsers = [], recentAppointments = [], loading = True\<rparr>"

text \<open>
  \<open>fetchDashboardData\<close>: the three GET requests are issued together and joined by
  \<open>Promise.all\<close>, which rejects as soon as one of them rejects; the three setters sit
  behind the join, in the same \<open>try\<close> block, and \<open>finally\<close> clears the loading flag.
\<close>

definition fetchDashboardData :: "'t transport \<Rightarrow> admin_state \<Rightarrow> 't world \<Rightarrow> admin_state \<times> 't world" where
  "fetchDashboardData T st w =
     (case axios_doc T (get_request ''/dashboard/stats'') w of (statsRes, w1) \<Rightarrow>
      case axios_users T (get_request ''/users/patients'') w1 of (usersRes, w2) \<Rightarrow>
      case axios_rows T (get_request ''/appointments'') w2 of (appointmentsRes, w3) \<Rightarrow>
      (case (statsRes, usersRes, appointmentsRes) of
         (Resolved sd, Resolved ud, Resolved ad) \<Rightarrow>
           (st\<lparr>stats := sd, recentUsers := take 5 ud, recentAppointments := take 5 ad,
               loading := False\<rparr>, w3)
       | _ \<Rightarrow>
           (st\<lparr>loading := False\<rparr>, notify (ToastError ''Failed to load dashboard data'') w3)))"

text \<open>
  \<open>finalError.response?.data?.detail || 'Server error'\<close>: an absent or empty detail gives
  the default text.
\<close>

fun detail_or_default :: "string option \<Rightarrow> string" where
  "detail_or_default None = ''Server error''"
| "detail_or_default (Some d) = (if d = [] then ''Server error'' else d)"

text \<open>
  \<open>updatePaymentStatus\<close> of the admin dashboard: three nested \<open>try\<close>/\<open>catch\<close> blocks.
  Each success shows the same toast and refetches the dashboard. When the third request
  rejects too, the innermost \<open>catch\<close> logs, shows an error toast, maps the local
  collection and shows a success toast marked \<open>(demo mode)\<close>.
\<close>

definition admin_updatePaymentStatus ::
  "'t transport \<Rightarrow> jsval \<Rightarrow> string \<Rightarrow> admin_state \<Rightarrow> 't world \<Rightarrow> admin_state \<times> 't world" where
  "admin_updatePaymentStatus T appointmentId paymentStatus st w =
     (let updated = ToastSuccess (''Payment status updated to '' @ paymentStatus) in
      case axios_send T (patch_payment_param appointmentId paymentStatus) w of
        (Resolved _, w1) \<Rightarrow> fetchDashboardData T st (notify updated w1)
      | (Rejected _, w1) \<Rightarrow>
      (case axios_send T (put_payment_body appointmentId paymentStatus) w1 of
        (Resolved _, w2) \<Rightarrow> fetchDashboardData T st (notify updated w2)
      | (Rejected _, w2) \<Rightarrow>
      (case axios_send T (patch_payment_body appointmentId paymentStatus) w2 of
        (Resolved _, w3) \<Rightarrow> fetchDashboardData T st (notify updated w3)
      | (Rejected detail, w3) \<Rightarrow>
          (st\<lparr>recentAppointments :=
                applyLocalStatus (recentAppointments st) appointmentId
                  ''payment_status'' (JStr paymentStatus)\<rparr>,
           notify (ToastSuccess (''Payment status updated to '' @ paymentStatus @ '' (demo mode)''))
             (notify (ToastError (''Failed to update payment status: '' @ detail_or_default detail))
               (notify (ConsoleError ''Payment status update failed:'') w3))))))"

section \<open>AppointmentsList\<close>

record list_state =
  appointments :: "jsobject list"
  doctors :: "user list"
  patients :: "user list"
  listLoading :: bool
  searchTerm :: string
  statusFilter :: string
  dateFilter :: string

definition list_initial :: list_state where
  "list_initial =
     \<lparr>appointments = [], doctors = [], patients = [], listLoading = True,
      searchTerm = [], statusFilter = ''all'', dateFilter = ''all''\<rparr>"

definition fetchAppointments :: "'t transport \<Rightarrow> list_state \<Rightarrow> 't world \<Rightarrow> list_state \<times> 't world" where
  "fetchAppointments T st w =
     (case axios_rows T (get_request ''/appointments'') w of
        (Resolved d, w1) \<Rightarrow> (st\<lparr>appointments := d, listLoading := False\<rparr>, w1)
      | (Rejected _, w1) \<Rightarrow>
          (st\<lparr>listLoading := False\<rparr>, notify (ToastError ''Failed to load appointments'') w1))"

definition fetchDoctors :: "'t transport \<Rightarrow> list_state \<Rightarrow> 't world \<Rightarrow> list_state \<times> 't world" where
  "fetchDoctors T st w =
     (case axios_users T (get_request ''/users/doctors'') w of
        (Resolved d, w1) \<Rightarrow> (st\<lparr>doctors := d\<rparr>, w1)
      | (Rejected _, w1) \<Rightarrow> (st, notify (ConsoleError ''Failed to load doctors'') w1))"

definition fetchPatients :: "'t transport \<Rightarrow> list_state \<Rightarrow> 't world \<Rightarrow> list_state \<times> 't world" where
  "fetchPatients T st w =
     (case axios_users T (get_request ''/users/patients'') w of
        (Resolved d, w1) \<Rightarrow> (st\<lparr>patients := d\<rparr>, w1)
      | (Rejected _, w1) \<Rightarrow> (st, notify (ConsoleError ''Failed to load patients'') w1))"

text \<open>
  The mount effect: \<open>fetchAppointments()\<close>, and for an admin also \<open>fetchDoctors()\<close> and
  \<open>fetchPatients()\<close>. The calls are not awaited; each one settles on its own.
\<close>

definition list_mount :: "'t transport \<Rightarrow> string \<Rightarrow> list_state \<Rightarrow> 't world \<Rightarrow> list_state \<times> 't world" where
  "list_mount T role st w =
     (case fetchAppointments T st w of (st1, w1) \<Rightarrow>
      if role = ''admin''
      then (case fetchDoctors T st1 w1 of (st2, w2) \<Rightarrow> fetchPatients T st2 w2)
      else (st1, w1))"

text \<open>
  \<open>updateAppointmentStatus\<close>: one PUT with the status as a query parameter; on success a
  toast and a refetch, on failure an error toast and nothing else.
\<close>

definition updateAppointmentStatus ::
  "'t transport \<Rightarrow> jsval \<Rightarrow> string \<Rightarrow> list_state \<Rightarrow> 't world \<Rightarrow> list_state \<times> 't world" where
  "updateAppointmentStatus T appointmentId status st w =
     (case axios_send T (put_status_param appointmentId status) w of
        (Resolved _, w1) \<Rightarrow>
          fetchAppointments T st
            (notify (ToastSuccess (''Appointment '' @ status @ '' successfully'')) w1)
      | (Rejected _, w1) \<Rightarrow>
          (st, notify (ToastError ''Failed to update appointment status'') w1))"

text \<open>
  \<open>updatePaymentStatus\<close> of the appointment list: two nested \<open>try\<close>/\<open>catch\<close> blocks (the
  parameterised PATCH, then the PATCH with a body), and the local map with the
  \<open>(demo mode)\<close> toast when both reject.
\<close>

definition list_updatePaymentStatus ::
  "'t transport \<Rightarrow> jsval \<Rightarrow> string \<Rightarrow> list_state \<Rightarrow> 't world \<Rightarrow> list_state \<times> 't world" where
  "list_updatePaymentStatus T appointmentId paymentStatus st w =
     (let updated = ToastSuccess (''Payment status updated to '' @ paymentStatus) in
      case axios_send T (patch_payment_param appointmentId paymentStatus) w of
        (Resolved _, w1) \<Rightarrow> fetchAppointments T st (notify updated w1)
      | (Rejected _, w1) \<Rightarrow>
      (case axios_send T (patch_payment_body appointmentId paymentStatus) w1 of
        (Resolved _, w2) \<Rightarrow> fetchAppointments T st (notify updated w2)
      | (Rejected _, w2) \<Rightarrow>
          (st\<lparr>appointments :=
                applyLocalStatus (appointments st) appointmentId
                  ''payment_status'' (JStr paymentStatus)\<rparr>,
           notify (ToastSuccess (''Payment status updated to '' @ paymentStatus @ '' (demo mode)''))
             (notify (ConsoleError ''Payment status update failed:'') w2))))"

subsection \<open>Dates\<close>

text \<open>
  A \<open>Date\<close> holds a time value in milliseconds since the epoch, or is invalid (\<open>None\<close>).
  The calendar is the local one of the browser; the model fixes the offset of local time
  from UTC (no daylight saving switch inside the windows considered). \<open>now\<close> is what
  \<open>new Date()\<close> returns and \<open>parseDate\<close> is the parser behind \<open>new Date(string)\<close>.
\<close>

record clock =
  now :: int
  tzOffset :: int
  parseDate :: "string \<Rightarrow> int option"

definition msPerDay :: int where
  "msPerDay = 86400000"

definition localDay :: "clock \<Rightarrow> int \<Rightarrow> int" where
  "localDay c t = (t + tzOffset c) div msPerDay"

text \<open>The time value of 00:00:00.000 local time on a local day.\<close>

definition localMidnight :: "clock \<Rightarrow> int \<Rightarrow> int" where
  "localMidnight c d = d * msPerDay - tzOffset c"

text \<open>\<open>new Date(v)\<close>: \<open>undefined\<close> is invalid, \<open>null\<close> is the epoch, a string is parsed.\<close>

fun newDate :: "clock \<Rightarrow> jsval \<Rightarrow> int option" where
  "newDate c JUndefined = None"
| "newDate c JNull = Some 0"
| "newDate c (JStr s) = parseDate c s"

text \<open>
  \<open>toDateString()\<close> prints the weekday, month, day and year of the local calendar day, and
  \<open>Invalid Date\<close> for an invalid date: the string of a valid date is determined by its
  local day and determines it, so it is represented by the number of that day.
\<close>

datatype date_string = InvalidDateString | DayString int

fun toDateString :: "clock \<Rightarrow> int option \<Rightarrow> date_string" where
  "toDateString c None = InvalidDateString"
| "toDateString c (Some t) = DayString (localDay c t)"

text \<open>Relational comparison of an appointment date with a valid date: false when invalid.\<close>

fun date_ge :: "int option \<Rightarrow> int \<Rightarrow> bool" where
  "date_ge None b = False"
| "date_ge (Some a) b = (a \<ge> b)"

fun date_le :: "int option \<Rightarrow> int \<Rightarrow> bool" where
  "date_le None b = False"
| "date_le (Some a) b = (a \<le> b)"

fun date_lt :: "int option \<Rightarrow> int \<Rightarrow> bool" where
  "date_lt None b = False"
| "date_lt (Some a) b = (a < b)"

text \<open>
  Year, month (from 0) and day of the month of a day number, and \<open>MakeDay\<close> of the
  language definition, which accepts a month or a day of the month out of range and
  carries the excess over.
\<close>

definition civil_from_days :: "int \<Rightarrow> int \<times> int \<times> int" where
  "civil_from_days z0 =
    (let z = z0 + 719468;
         era = z div 146097;
         doe = z - era * 146097;
         yoe = (doe - doe div 1460 + doe div 36524 - doe div 146096) div 365;
         y = yoe + era * 400;
         doy = doe - (365 * yoe + yoe div 4 - yoe div 100);
         mp = (5 * doy + 2) div 153;
         d = doy - (153 * mp + 2) div 5 + 1;
         m = (if mp < 10 then mp + 3 else mp - 9)
     in (if m \<le> 2 then y + 1 else y, m - 1, d))"

definition DayFromYear :: "int \<Rightarrow> int" where
  "DayFromYear y =
     365 * (y - 1970) + (y - 1969) div 4 - (y - 1901) div 100 + (y - 1601) div 400"

definition InLeapYear :: "int \<Rightarrow> bool" where
  "InLeapYear y = (y mod 4 = 0 \<and> (y mod 100 \<noteq> 0 \<or> y mod 400 = 0))"

definition monthStart :: "int \<Rightarrow> bool \<Rightarrow> int" where
  "monthStart m leap =
     (if m = 0 then 0 else if m = 1 then 31
      else [59, 90, 120, 151, 181, 212, 243, 273, 304, 334] ! nat (m - 2)
           + (if leap then 1 else 0))"

definition MakeDay :: "int \<Rightarrow> int \<Rightarrow> int \<Rightarrow> int" where
  "MakeDay year month date =
     (let ym = year + month div 12; mn = month mod 12
      in DayFromYear ym + monthStart mn (InLeapYear ym) + date - 1)"

text \<open>\<open>const today = new Date(); today.setHours(0, 0, 0, 0)\<close>.\<close>

definition today :: "clock \<Rightarrow> int" where
  "today c = localMidnight c (localDay c (now c))"

text \<open>
  \<open>weekFromNow.setDate(today.getDate() + 7)\<close>: the day of the month plus seven is carried
  over by \<open>MakeDay\<close>, which is the local day seven days later, at the same time of day.
\<close>

definition weekFromNow :: "clock \<Rightarrow> int" where
  "weekFromNow c = localMidnight c (localDay c (now c) + 7)"

text \<open>\<open>monthFromNow.setMonth(today.getMonth() + 1)\<close>.\<close>

definition monthFromNow :: "clock \<Rightarrow> int" where
  "monthFromNow c =
     (case civil_from_days (localDay c (now c)) of
        (y, m, d) \<Rightarrow> localMidnight c (MakeDay y (m + 1) d))"

subsection \<open>The filtered view\<close>

text \<open>\<open>getUserName(userId, type)\<close>.\<close>

definition getUserName :: "list_state \<Rightarrow> jsval \<Rightarrow> string \<Rightarrow> string" where
  "getUserName st userId type =
     (let userList = (if type = ''doctor'' then doctors st else patients st) in
      case find (\<lambda>u. user_id u = userId) userList of
        Some foundUser \<Rightarrow> full_name foundUser
      | None \<Rightarrow> type @ '' ID: '' @ toStringJS userId)"

definition matchesSearch :: "list_state \<Rightarrow> jsobject \<Rightarrow> bool" where
  "matchesSearch st appointment =
     (includes_str (toLowerCase (getUserName st (getField appointment ''doctor_id'') ''doctor''))
        (toLowerCase (searchTerm st)) \<or>
      includes_str (toLowerCase (getUserName st (getField appointment ''patient_id'') ''patient''))
        (toLowerCase (searchTerm st)) \<or>
      (case getField appointment ''notes'' of
         JStr notes \<Rightarrow> includes_str (toLowerCase notes) (toLowerCase (searchTerm st))
       | _ \<Rightarrow> False))"

definition matchesStatus :: "list_state \<Rightarrow> jsobject \<Rightarrow> bool" where
  "matchesStatus st appointment =
     (statusFilter st = ''all'' \<or> getField appointment ''status'' = JStr (statusFilter st))"

definition matchesDate :: "clock \<Rightarrow> list_state \<Rightarrow> jsobject \<Rightarrow> bool" where
  "matchesDate c st appointment =
     (if dateFilter st \<noteq> ''all'' then
        (let appointmentDate = newDate c (getField appointment ''appointment_date'') in
         if dateFilter st = ''today'' then
           toDateString c appointmentDate = toDateString c (Some (today c))
         else if dateFilter st = ''week'' then
           date_ge appointmentDate (today c) \<and> date_le appointmentDate (weekFromNow c)
         else if dateFilter st = ''month'' then
           date_ge appointmentDate (today c) \<and> date_le appointmentDate (monthFromNow c)
         else if dateFilter st = ''past'' then
           date_lt appointmentDate (today c)
         else True)
      else True)"

definition getFilteredAppointments :: "clock \<Rightarrow> list_state \<Rightarrow> jsobject list" where
  "getFilteredAppointments c st =
     filter (\<lambda>appointment.
        matchesSearch st appointment \<and> matchesStatus st appointment \<and> matchesDate c st appointment)
       (appointments st)"

text \<open>
  The summary cards, rendered only when the filtered list is not empty; each number is
  \<open>filteredAppointments.filter(...).length\<close>.
\<close>

record tallies =
  scheduledCount :: nat
  completedCount :: nat
  cancelledCount :: nat
  pendingPaymentCount :: nat

definition summaryStats :: "clock \<Rightarrow> list_state \<Rightarrow> tallies option" where
  "summaryStats c st =
     (let filteredAppointments = getFilteredAppointments c st in
      if length filteredAppointments > 0 then
        Some \<lparr>scheduledCount =
                length (filter (\<lambda>a. getField a ''status'' = JStr ''scheduled'') filteredAppointments),
              completedCount =
                length (filter (\<lambda>a. getField a ''status'' = JStr ''completed'') filteredAppointments),
              cancelledCount =
                length (filter (\<lambda>a. getField a ''status'' = JStr ''cancelled'') filteredAppointments),
              pendingPaymentCount =
                length (filter (\<lambda>a. getField a ''payment_status'' = JStr ''pending'')
                  filteredAppointments)\<rparr>
      else None)"

subsection \<open>Badges\<close>















section \<open>Reports: the periodic refresh\<close>

text \<open>
  The effect
  \<open>useEffect(() => { let interval; if (realTimeMode) { interval = setInterval(..., 30000) }
  return () => clearInterval(interval) }, [realTimeMode, selectedTimeRange, reportType])\<close>
  on top of the timer table of the page. The framework runs the effect after mount and
  after every change of a dependency, each time after the cleanup of the previous run,
  and runs the last cleanup when the component unmounts; a change and the cleanup and
  effect it causes are one step here.
\<close>

record reports_state =
  realTimeMode :: bool
  mounted :: bool
  interval :: "nat option"
  timers :: "(nat \<times> nat) list"
  nextTimer :: nat
  refreshes :: nat

definition reports_initial :: reports_state where
  "reports_initial =
     \<lparr>realTimeMode = False, mounted = False, interval = None, timers = [],
      nextTimer = 1, refreshes = 0\<rparr>"

text \<open>\<open>setInterval(callback, period)\<close> registers a timer and returns its fresh id.\<close>

definition setInterval :: "nat \<Rightarrow> reports_state \<Rightarrow> nat \<times> reports_state" where
  "setInterval period s =
     (nextTimer s, s\<lparr>timers := timers s @ [(nextTimer s, period)], nextTimer := Suc (nextTimer s)\<rparr>)"

text \<open>\<open>clearInterval(id)\<close> removes the timer; \<open>clearInterval(undefined)\<close> does nothing.\<close>

fun clearInterval :: "nat option \<Rightarrow> reports_state \<Rightarrow> reports_state" where
  "clearInterval None s = s"
| "clearInterval (Some i) s = s\<lparr>timers := filter (\<lambda>t. fst t \<noteq> i) (timers s)\<rparr>"

definition effect :: "reports_state \<Rightarrow> reports_state" where
  "effect s =
     (if realTimeMode s
      then (case setInterval 30000 s of (i, s') \<Rightarrow> s'\<lparr>interval := Some i\<rparr>)
      else s\<lparr>interval := None\<rparr>)"

definition cleanup :: "reports_state \<Rightarrow> reports_state" where
  "cleanup s = clearInterval (interval s) s"

datatype reports_event =
  Mount | ToggleRealTimeMode | ChangeSelection | Unmount | TimerFires nat

text \<open>
  One step of the component. \<open>None\<close>: the event cannot happen in this state (a timer that
  is not registered does not fire; an unmounted view receives no user event).
  A mount starts from \<open>useState(false)\<close>. \<open>ChangeSelection\<close> is a change of
  \<open>selectedTimeRange\<close> or \<open>reportType\<close>. A firing timer runs the callback, which calls
  \<open>fetchReportData()\<close> once.
\<close>

fun reports_step :: "reports_state \<Rightarrow> reports_event \<Rightarrow> reports_state option" where
  "reports_step s Mount =
     (if mounted s then None
      else Some (effect (s\<lparr>mounted := True, realTimeMode := False, interval := None\<rparr>)))"
| "reports_step s ToggleRealTimeMode =
     (if mounted s
      then Some (effect (cleanup (s\<lparr>realTimeMode := \<not> realTimeMode s\<rparr>)))
      else None)"
| "reports_step s ChangeSelection =
     (if mounted s then Some (effect (cleanup s)) else None)"
| "reports_step s Unmount =
     (if mounted s then Some ((cleanup s)\<lparr>mounted := False\<rparr>) else None)"
| "reports_step s (TimerFires i) =
     (if i \<in> fst ` set (timers s) then Some (s\<lparr>refreshes := Suc (refreshes s)\<rparr>) else None)"

fun reports_run :: "reports_state \<Rightarrow> reports_event list \<Rightarrow> reports_state option" where
  "reports_run s [] = Some s"
| "reports_run s (e # es) =
     (case reports_step s e of None \<Rightarrow> None | Some s' \<Rightarrow> reports_run s' es)"

text \<open>
  The timer table holds the interval of the running effect, with the period of 30000 ms,
  when the view is mounted with real-time mode on, and nothing otherwise.
\<close>

definition timer_inv :: "reports_state \<Rightarrow> bool" where
  "timer_inv s =
     (if mounted s \<and> realTimeMode s
      then (\<exists>i. interval s = Some i \<and> timers s = [(i, 30000)])
      else timers s = [])"

section \<open>The visible list as specified\<close>





section \<open>Sample data\<close>

text \<open>Appointments, servers, a clock and an empty world, used to run the model.\<close>

definition apt1 :: jsobject where
  "apt1 = [(''id'', JStr ''a1''), (''doctor_id'', JStr ''d1''), (''patient_id'', JStr ''p1''),
           (''appointment_date'', JStr ''2024-05-10T00:00:00Z''),
           (''status'', JStr ''scheduled''), (''payment_status'', JStr ''pending'')]"

definition apt2 :: jsobject where
  "apt2 = [(''id'', JStr ''a2''), (''doctor_id'', JStr ''d1''), (''patient_id'', JStr ''p2''),
           (''appointment_date'', JStr ''2024-05-09T23:59:59Z''),
           (''status'', JStr ''completed''), (''payment_status'', JStr ''paid''),
           (''notes'', JStr ''Follow-up'')]"

definition world0 :: "nat world" where
  "world0 = \<lparr>server = 0, sent = [], notices = []\<rparr>"

definition demo_list :: list_state where
  "demo_list = list_initial\<lparr>appointments := [apt1, apt2], listLoading := False\<rparr>"

definition demo_admin :: admin_state where
  "demo_admin = admin_initial\<lparr>recentAppointments := [apt1, apt2], loading := False\<rparr>"

text \<open>Noon of 10 May 2024, UTC, and a parser that knows the timestamps of the samples.\<close>

definition demo_clock :: clock where
  "demo_clock =
     \<lparr>now = 1715342400000, tzOffset = 0,
      parseDate = map_of [(''2024-05-10T00:00:00Z'', 1715299200000),
                          (''2024-05-09T23:59:59Z'', 1715299199000)]\<rparr>"


text \<open>Ten appointments: three completed, four scheduled, three cancelled.\<close>

definition sample_apt :: "string \<Rightarrow> string \<Rightarrow> string \<Rightarrow> jsobject" where
  "sample_apt i s p = [(''id'', JStr i), (''status'', JStr s), (''payment_status'', JStr p)]"

definition ten_appointments :: "jsobject list" where
  "ten_appointments =
     [sample_apt ''1'' ''scheduled'' ''pending'', sample_apt ''2'' ''completed'' ''paid'',
      sample_apt ''3'' ''cancelled'' ''pending'', sample_apt ''4'' ''scheduled'' ''pending'',
      sample_apt ''5'' ''completed'' ''pending'', sample_apt ''6'' ''scheduled'' ''paid'',
      sample_apt ''7'' ''cancelled'' ''overdue'', sample_apt ''8'' ''completed'' ''paid'',
      sample_apt ''9'' ''scheduled'' ''overdue'', sample_apt ''10'' ''cancelled'' ''paid'']"

definition ten_view :: list_state where
  "ten_view = list_initial\<lparr>appointments := ten_appointments, listLoading := False,
                           statusFilter := ''completed''\<rparr>"

text \<open>A server that rejects every request, counting the requests it has seen.\<close>

definition failing_transport :: "nat transport" where
  "failing_transport =
     \<lparr>send = (\<lambda>r n. (Rejected None, Suc n)),
      fetchRows = (\<lambda>r n. (Rejected None, Suc n)),
      fetchUsers = (\<lambda>r n. (Rejected None, Suc n)),
      fetchDoc = (\<lambda>r n. (Rejected None, Suc n))\<rparr>"

text \<open>
  A server that accepts a mutation only as a PATCH of the appointment resource with the
  field in the body (it rejects the parameterised PATCH and every PUT), and answers
  every GET.
\<close>

definition body_patch_transport :: "nat transport" where
  "body_patch_transport =
     \<lparr>send = (\<lambda>r n. (if req_method r = PATCH \<and> req_params r = [] then Resolved ()
                        else Rejected (Some ''Method Not Allowed''), Suc n)),
      fetchRows = (\<lambda>r n. (Resolved [apt1, apt2], Suc n)),
      fetchUsers = (\<lambda>r n. (Resolved [], Suc n)),
      fetchDoc = (\<lambda>r n. (Resolved [], Suc n))\<rparr>"

text \<open>A server whose statistics endpoint is down while the two lists are served.\<close>

definition stats_down_transport :: "nat transport" where
  "stats_down_transport =
     \<lparr>send = (\<lambda>r n. (Resolved (), Suc n)),
      fetchRows = (\<lambda>r n. (Resolved [apt1, apt2], Suc n)),
      fetchUsers = (\<lambda>r n. (Resolved [\<lparr>user_id = JStr ''p1'', full_name = ''Pat One''\<rparr>], Suc n)),
      fetchDoc = (\<lambda>r n. (Rejected None, Suc n))\<rparr>"

text \<open>A server whose doctor list is down while everything else is served.\<close>

definition doctors_down_transport :: "nat transport" where
  "doctors_down_transport =
     \<lparr>send = (\<lambda>r n. (Resolved (), Suc n)),
      fetchRows = (\<lambda>r n. (Resolved [apt1, apt2], Suc n)),
      fetchUsers = (\<lambda>r n. (if req_url r = ''/users/doctors'' then Rejected None
                              else Resolved [\<lparr>user_id = JStr ''p1'', full_name = ''Pat One''\<rparr>],
                            Suc n)),
      fetchDoc = (\<lambda>r n. (Resolved [], Suc n))\<rparr>"

section \<open>Properties\<close>

lemma map_of_setField: "map_of (setField k v obj) = (map_of obj)(k \<mapsto> v)"
  by (induction obj) (auto simp: fun_eq_iff)

lemma getField_setField:
  "getField (setField k v obj) k' = (if k' = k then v else getField obj k')"
  by (simp add: getField_def map_of_setField)

lemma keys_setField: "fst ` set (setField k v obj) = insert k (fst ` set obj)"
  by (simp add: dom_map_of_conv_image_fst [symmetric] map_of_setField)


lemma applyLocalStatus_absent:
  "\<forall>a \<in> set xs. getField a ''id'' \<noteq> aid \<Longrightarrow> applyLocalStatus xs aid f v = xs"
  by (simp add: applyLocalStatus_def map_idI)

lemma sent_fetchDashboardData:
  "sent (snd (fetchDashboardData T st w)) =
     sent w @ [get_request ''/dashboard/stats'', get_request ''/users/patients'',
               get_request ''/appointments'']"
  by (simp add: fetchDashboardData_def axios_doc_def axios_users_def axios_rows_def notify_def
      split: prod.splits response.splits)

lemma sent_fetchAppointments:
  "sent (snd (fetchAppointments T st w)) = sent w @ [get_request ''/appointments'']"
  by (simp add: fetchAppointments_def axios_rows_def notify_def split: prod.splits response.splits)

text \<open>What the two payment-status handlers do when every request of their chain rejects.\<close>

lemma list_exhausted:
  assumes "send T (patch_payment_param aid ps) (server w) = (Rejected d1, s1)"
    and "send T (patch_payment_body aid ps) s1 = (Rejected d2, s2)"
  shows "list_updatePaymentStatus T aid ps st w =
    (st\<lparr>appointments := applyLocalStatus (appointments st) aid ''payment_status'' (JStr ps)\<rparr>,
     w\<lparr>server := s2,
       sent := sent w @ [patch_payment_param aid ps, patch_payment_body aid ps],
       notices := notices w @ [ConsoleError ''Payment status update failed:'',
         ToastSuccess (''Payment status updated to '' @ ps @ '' (demo mode)'')]\<rparr>)"
  using assms by (simp add: list_updatePaymentStatus_def axios_send_def notify_def)

lemma admin_exhausted:
  assumes "send T (patch_payment_param aid ps) (server w) = (Rejected d1, s1)"
    and "send T (put_payment_body aid ps) s1 = (Rejected d2, s2)"
    and "send T (patch_payment_body aid ps) s2 = (Rejected d3, s3)"
  shows "admin_updatePaymentStatus T aid ps st w =
    (st\<lparr>recentAppointments :=
          applyLocalStatus (recentAppointments st) aid ''payment_status'' (JStr ps)\<rparr>,
     w\<lparr>server := s3,
       sent := sent w @ [patch_payment_param aid ps, put_payment_body aid ps,
                         patch_payment_body aid ps],
       notices := notices w @ [ConsoleError ''Payment status update failed:'',
         ToastError (''Failed to update payment status: '' @ detail_or_default d3),
         ToastSuccess (''Payment status updated to '' @ ps @ '' (demo mode)'')]\<rparr>)"
  using assms by (simp add: admin_updatePaymentStatus_def axios_send_def notify_def)

subsection \<open>The optimistic replace-by-id map\<close>

text \<open>
  C5. \<open>applyLocalStatus\<close> returns a collection of the same length in which an appointment
  with another id is the same object as before, and an appointment with the given id has
  the named field set to the new value, every other field as before, and no other new
  field. The result is a new list built by \<open>map\<close>; the argument is not changed.
\<close>

theorem applyLocalStatus_frame:
  assumes "i < length appts"
  shows "length (applyLocalStatus appts aid field v) = length appts \<and>
    (getField (appts ! i) ''id'' \<noteq> aid \<longrightarrow>
       applyLocalStatus appts aid field v ! i = appts ! i) \<and>
    (getField (appts ! i) ''id'' = aid \<longrightarrow>
       getField (applyLocalStatus appts aid field v ! i) field = v \<and>
       (\<forall>g. g \<noteq> field \<longrightarrow>
          getField (applyLocalStatus appts aid field v ! i) g =
          getField (appts ! i) g) \<and>
       fst ` set (applyLocalStatus appts aid field v ! i) =
         insert field (fst ` set (appts ! i)))"
  using assms by (simp add: applyLocalStatus_def getField_setField keys_setField)

theorem applyLocalStatus_frame_witness:
  "getField (applyLocalStatus [apt1, apt2] (JStr ''a1'') ''payment_status'' (JStr ''paid'') ! 0)
     ''payment_status'' = JStr ''paid'' \<and>
   getField (applyLocalStatus [apt1, apt2] (JStr ''a1'') ''payment_status'' (JStr ''paid'') ! 0)
     ''status'' = JStr ''scheduled'' \<and>
   applyLocalStatus [apt1, apt2] (JStr ''a1'') ''payment_status'' (JStr ''paid'') ! 1 = apt2"
  using applyLocalStatus_frame [of 0 "[apt1, apt2]" "JStr ''a1''" "''payment_status''" "JStr ''paid''"]
    applyLocalStatus_frame [of 1 "[apt1, apt2]" "JStr ''a1''" "''payment_status''" "JStr ''paid''"]
  by (simp add: apt1_def apt2_def getField_def)

subsection \<open>Exhausted chains\<close>

text \<open>
  C4. When the one request of \<open>updateAppointmentStatus\<close> (the PUT with the status as a
  query parameter) is rejected, the handler shows the failure toast and nothing else: the
  component state, and with it the local appointment collection, is exactly what it was,
  no success notice is shown and no refetch is issued.
\<close>

theorem updateAppointmentStatus_exhausted:
  assumes "send T (put_status_param aid status) (server w) = (Rejected d, s')"
  shows "updateAppointmentStatus T aid status st w =
    (st, w\<lparr>server := s', sent := sent w @ [put_status_param aid status],
            notices := notices w @ [ToastError ''Failed to update appointment status'']\<rparr>)"
  using assms by (simp add: updateAppointmentStatus_def axios_send_def notify_def)

theorem updateAppointmentStatus_exhausted_witness:
  "updateAppointmentStatus failing_transport (JStr ''a1'') ''completed'' demo_list world0 =
    (demo_list,
     \<lparr>server = 1, sent = [put_status_param (JStr ''a1'') ''completed''],
      notices = [ToastError ''Failed to update appointment status'']\<rparr>)"
  using updateAppointmentStatus_exhausted [where T = failing_transport and aid = "JStr ''a1''"
      and status = "''completed''" and w = world0 and d = None and s' = 1 and st = demo_list]
  by (simp add: failing_transport_def world0_def)




text \<open>
  C10. When no appointment of the local collection has the given id and every request of
  the chain is rejected, the component state of either view is exactly what it was, and
  the \<open>(demo mode)\<close> success toast is shown all the same, as the last notice.
\<close>

theorem payment_chain_exhausted_unknown_id:
  "((\<forall>a \<in> set (appointments lst). getField a ''id'' \<noteq> aid) \<and>
    send T (patch_payment_param aid ps) (server w) = (Rejected da, sa) \<and>
    send T (patch_payment_body aid ps) sa = (Rejected db, sb) \<longrightarrow>
      fst (list_updatePaymentStatus T aid ps lst w) = lst \<and>
      last (notices (snd (list_updatePaymentStatus T aid ps lst w))) =
        ToastSuccess (''Payment status updated to '' @ ps @ '' (demo mode)'')) \<and>
   ((\<forall>a \<in> set (recentAppointments ast). getField a ''id'' \<noteq> aid) \<and>
    send T (patch_payment_param aid ps) (server w) = (Rejected ea, ta) \<and>
    send T (put_payment_body aid ps) ta = (Rejected eb, tb) \<and>
    send T (patch_payment_body aid ps) tb = (Rejected ec, tc) \<longrightarrow>
      fst (admin_updatePaymentStatus T aid ps ast w) = ast \<and>
      last (notices (snd (admin_updatePaymentStatus T aid ps ast w))) =
        ToastSuccess (''Payment status updated to '' @ ps @ '' (demo mode)''))"
  by (simp add: list_exhausted admin_exhausted applyLocalStatus_absent)

theorem payment_chain_exhausted_unknown_id_witness:
  "fst (list_updatePaymentStatus failing_transport (JStr ''zz'') ''paid'' demo_list world0)
     = demo_list \<and>
   last (notices (snd (list_updatePaymentStatus failing_transport (JStr ''zz'') ''paid''
     demo_list world0))) = ToastSuccess ''Payment status updated to paid (demo mode)'' \<and>
   fst (admin_updatePaymentStatus failing_transport (JStr ''zz'') ''paid'' demo_admin world0)
     = demo_admin \<and>
   last (notices (snd (admin_updatePaymentStatus failing_transport (JStr ''zz'') ''paid''
     demo_admin world0))) = ToastSuccess ''Payment status updated to paid (demo mode)''"
  using payment_chain_exhausted_unknown_id [where T = failing_transport and aid = "JStr ''zz''"
      and ps = "''paid''" and w = world0 and lst = demo_list and ast = demo_admin
      and da = None and sa = 1 and db = None and sb = 2
      and ea = None and ta = 1 and eb = None and tb = 2 and ec = None and tc = 3]
  by (simp add: failing_transport_def world0_def demo_list_def demo_admin_def
      admin_initial_def list_initial_def apt1_def apt2_def getField_def)

subsection \<open>The order of the attempts\<close>

text \<open>
  C2, as the code has it. The requests sent by the two payment-status handlers, for every
  way the server can answer. The admin dashboard sends the parameterised PATCH, then the
  PUT with a body, then the PATCH with a body, each one only after the rejection of the
  one before, and after the first accepted request nothing but the three GET requests of
  the dashboard refetch. The appointment list has two steps only: the parameterised
  PATCH and the PATCH with a body, followed after a success by the refetch of the list;
  it never sends the PUT.
\<close>

theorem payment_chain_order:
  "(send T (patch_payment_param aid ps) (server w) = (Resolved (), sa) \<longrightarrow>
      sent (snd (admin_updatePaymentStatus T aid ps ast w)) =
        sent w @ [patch_payment_param aid ps] @
        [get_request ''/dashboard/stats'', get_request ''/users/patients'',
         get_request ''/appointments'']) \<and>
   (send T (patch_payment_param aid ps) (server w) = (Rejected da, sa) \<and>
    send T (put_payment_body aid ps) sa = (Resolved (), sb) \<longrightarrow>
      sent (snd (admin_updatePaymentStatus T aid ps ast w)) =
        sent w @ [patch_payment_param aid ps, put_payment_body aid ps] @
        [get_request ''/dashboard/stats'', get_request ''/users/patients'',
         get_request ''/appointments'']) \<and>
   (send T (patch_payment_param aid ps) (server w) = (Rejected da, sa) \<and>
    send T (put_payment_body aid ps) sa = (Rejected db, sb) \<and>
    send T (patch_payment_body aid ps) sb = (Resolved (), sc) \<longrightarrow>
      sent (snd (admin_updatePaymentStatus T aid ps ast w)) =
        sent w @ [patch_payment_param aid ps, put_payment_body aid ps,
                  patch_payment_body aid ps] @
        [get_request ''/dashboard/stats'', get_request ''/users/patients'',
         get_request ''/appointments'']) \<and>
   (send T (patch_payment_param aid ps) (server w) = (Rejected da, sa) \<and>
    send T (put_payment_body aid ps) sa = (Rejected db, sb) \<and>
    send T (patch_payment_body aid ps) sb = (Rejected dc, sc) \<longrightarrow>
      sent (snd (admin_updatePaymentStatus T aid ps ast w)) =
        sent w @ [patch_payment_param aid ps, put_payment_body aid ps,
                  patch_payment_body aid ps]) \<and>
   (send T (patch_payment_param aid ps) (server w) = (Resolved (), sa) \<longrightarrow>
      sent (snd (list_updatePaymentStatus T aid ps lst w)) =
        sent w @ [patch_payment_param aid ps, get_request ''/appointments'']) \<and>
   (send T (patch_payment_param aid ps) (server w) = (Rejected da, sa) \<and>
    send T (patch_payment_body aid ps) sa = (Resolved (), sb) \<longrightarrow>
      sent (snd (list_updatePaymentStatus T aid ps lst w)) =
        sent w @ [patch_payment_param aid ps, patch_payment_body aid ps,
                  get_request ''/appointments'']) \<and>
   (send T (patch_payment_param aid ps) (server w) = (Rejected da, sa) \<and>
    send T (patch_payment_body aid ps) sa = (Rejected db, sb) \<longrightarrow>
      sent (snd (list_updatePaymentStatus T aid ps lst w)) =
        sent w @ [patch_payment_param aid ps, patch_payment_body aid ps])"
  by (simp add: admin_updatePaymentStatus_def list_updatePaymentStatus_def axios_send_def
      notify_def sent_fetchDashboardData sent_fetchAppointments)

theorem payment_chain_order_witness:
  "sent (snd (admin_updatePaymentStatus body_patch_transport (JStr ''a1'') ''paid'' demo_admin world0)) =
     [patch_payment_param (JStr ''a1'') ''paid'', put_payment_body (JStr ''a1'') ''paid'',
      patch_payment_body (JStr ''a1'') ''paid'',
      get_request ''/dashboard/stats'', get_request ''/users/patients'',
      get_request ''/appointments'']"
  using payment_chain_order [where T = body_patch_transport and aid = "JStr ''a1''"
      and ps = "''paid''" and w = world0 and lst = demo_list and ast = demo_admin
      and da = "Some ''Method Not Allowed''" and sa = 1 and db = "Some ''Method Not Allowed''" and sb = 2
      and dc = None and sc = 3]
  by (simp add: body_patch_transport_def world0_def patch_payment_param_def put_payment_body_def
      patch_payment_body_def)

text \<open>
  The claim as written fails in the appointment list: against a server that rejects the
  parameterised PATCH and the PUT and accepts the PATCH with a body, the PUT is never
  attempted.
\<close>

theorem payment_chain_order_counterexample:
  "fst (send body_patch_transport (patch_payment_param (JStr ''a1'') ''paid'') 0)
     = Rejected (Some ''Method Not Allowed'') \<and>
   fst (send body_patch_transport (put_payment_body (JStr ''a1'') ''paid'') 1)
     = Rejected (Some ''Method Not Allowed'') \<and>
   fst (send body_patch_transport (patch_payment_body (JStr ''a1'') ''paid'') 1) = Resolved () \<and>
   sent (snd (list_updatePaymentStatus body_patch_transport (JStr ''a1'') ''paid'' demo_list world0)) =
     [patch_payment_param (JStr ''a1'') ''paid'', patch_payment_body (JStr ''a1'') ''paid'',
      get_request ''/appointments''] \<and>
   put_payment_body (JStr ''a1'') ''paid''
     \<notin> set (sent (snd (list_updatePaymentStatus body_patch_transport (JStr ''a1'') ''paid''
                        demo_list world0)))"
  by (simp add: list_updatePaymentStatus_def axios_send_def notify_def body_patch_transport_def
      world0_def fetchAppointments_def axios_rows_def patch_payment_param_def put_payment_body_def
      patch_payment_body_def get_request_def)

subsection \<open>Refreshing\<close>

text \<open>
  C3, as the code has it. The dashboard refresh of the admin view is joined: when the
  three fetches all resolve the three sections are set (the lists cut to five entries),
  and when any one of them is rejected no section is set, each keeps the value it had,
  one failure toast is shown and the loading flag is cleared. The three fetches of the
  appointment list (appointments, doctors, patients, for an admin) are isolated: each
  collection is replaced exactly when its own request resolves and keeps its value
  otherwise, whatever happens to the other two.
\<close>

theorem refresh_isolation:
  "(fetchDoc T (get_request ''/dashboard/stats'') (server w) = (ra, sa) \<and>
    fetchUsers T (get_request ''/users/patients'') sa = (rb, sb) \<and>
    fetchRows T (get_request ''/appointments'') sb = (rc, sc) \<longrightarrow>
      (\<forall>sd ud ad. ra = Resolved sd \<and> rb = Resolved ud \<and> rc = Resolved ad \<longrightarrow>
         fst (fetchDashboardData T ast w) =
           ast\<lparr>stats := sd, recentUsers := take 5 ud, recentAppointments := take 5 ad,
               loading := False\<rparr> \<and>
         notices (snd (fetchDashboardData T ast w)) = notices w) \<and>
      ((\<exists>d. ra = Rejected d) \<or> (\<exists>d. rb = Rejected d) \<or> (\<exists>d. rc = Rejected d) \<longrightarrow>
         fst (fetchDashboardData T ast w) = ast\<lparr>loading := False\<rparr> \<and>
         notices (snd (fetchDashboardData T ast w)) =
           notices w @ [ToastError ''Failed to load dashboard data''])) \<and>
   (fetchRows T (get_request ''/appointments'') (server w) = (qa, ta) \<and>
    fetchUsers T (get_request ''/users/doctors'') ta = (qb, tb) \<and>
    fetchUsers T (get_request ''/users/patients'') tb = (qc, tc) \<longrightarrow>
      fst (list_mount T ''admin'' lst w) =
        lst\<lparr>appointments := (case qa of Resolved d \<Rightarrow> d | Rejected _ \<Rightarrow> appointments lst),
            doctors := (case qb of Resolved d \<Rightarrow> d | Rejected _ \<Rightarrow> doctors lst),
            patients := (case qc of Resolved d \<Rightarrow> d | Rejected _ \<Rightarrow> patients lst),
            listLoading := False\<rparr>)"
  by (auto simp: fetchDashboardData_def list_mount_def fetchAppointments_def fetchDoctors_def
      fetchPatients_def axios_doc_def axios_users_def axios_rows_def notify_def
      split: response.splits)

theorem refresh_isolation_witness:
  "fst (fetchDashboardData stats_down_transport demo_admin world0) = demo_admin \<and>
   fst (list_mount doctors_down_transport ''admin'' list_initial world0) =
     list_initial\<lparr>appointments := [apt1, apt2],
       patients := [\<lparr>user_id = JStr ''p1'', full_name = ''Pat One''\<rparr>], listLoading := False\<rparr>"
  using refresh_isolation [where T = stats_down_transport and w = world0 and ast = demo_admin
      and ra = "Rejected None" and sa = 1
      and rb = "Resolved [\<lparr>user_id = JStr ''p1'', full_name = ''Pat One''\<rparr>]" and sb = 2
      and rc = "Resolved [apt1, apt2]" and sc = 3
      and lst = list_initial and qa = "Resolved [apt1, apt2]" and ta = 1
      and qb = "Resolved [\<lparr>user_id = JStr ''p1'', full_name = ''Pat One''\<rparr>]" and tb = 2
      and qc = "Resolved [\<lparr>user_id = JStr ''p1'', full_name = ''Pat One''\<rparr>]" and tc = 3]
   refresh_isolation [where T = doctors_down_transport and w = world0 and ast = demo_admin
      and ra = "Resolved []" and sa = 1
      and rb = "Resolved [\<lparr>user_id = JStr ''p1'', full_name = ''Pat One''\<rparr>]" and sb = 2
      and rc = "Resolved [apt1, apt2]" and sc = 3
      and lst = list_initial and qa = "Resolved [apt1, apt2]" and ta = 1
      and qb = "Rejected None" and tb = 2
      and qc = "Resolved [\<lparr>user_id = JStr ''p1'', full_name = ''Pat One''\<rparr>]" and tc = 3]
  by (simp add: stats_down_transport_def doctors_down_transport_def world0_def get_request_def
      demo_admin_def list_initial_def)

text \<open>
  The claim as written fails in the admin dashboard: on the first load, with only the
  statistics endpoint down, the users and the appointments that the server did deliver
  are not shown.
\<close>

theorem refresh_isolation_counterexample:
  "fetchUsers stats_down_transport (get_request ''/users/patients'') 1 =
     (Resolved [\<lparr>user_id = JStr ''p1'', full_name = ''Pat One''\<rparr>], 2) \<and>
   fetchRows stats_down_transport (get_request ''/appointments'') 2 = (Resolved [apt1, apt2], 3) \<and>
   recentUsers (fst (fetchDashboardData stats_down_transport admin_initial world0)) = [] \<and>
   recentAppointments (fst (fetchDashboardData stats_down_transport admin_initial world0)) = []"
  by (simp add: fetchDashboardData_def axios_doc_def axios_users_def axios_rows_def notify_def
      stats_down_transport_def world0_def admin_initial_def)

subsection \<open>The visible list\<close>

text \<open>The substring test of the code is the substring relation on lists.\<close>

lemma includes_str_sublist: "includes_str h n \<longleftrightarrow> sublist n h"
  by (induction h) (simp_all add: sublist_Cons_right)

lemma includes_str_empty: "includes_str h []"
  by (simp add: includes_str_sublist)








subsection \<open>The summary cards\<close>

lemma filtered_by_status_only:
  assumes "searchTerm st = []" and "dateFilter st = ''all''"
  shows "getFilteredAppointments c st =
    filter (\<lambda>a. statusFilter st = ''all'' \<or> getField a ''status'' = JStr (statusFilter st))
      (appointments st)"
  using assms
  by (simp add: getFilteredAppointments_def matchesSearch_def matchesDate_def toLowerCase_def
      includes_str_empty matchesStatus_def)

text \<open>
  C8. The summary cards are shown exactly when the filtered list is not empty, and each
  of their numbers counts records of the filtered list. In particular, for a collection
  of ten appointments with three completed, four scheduled and three cancelled, an empty
  search, no date filter and the status filter \<open>completed\<close>, the filtered list has three
  records and the cards count three completed, no scheduled and no cancelled one.
\<close>

theorem summary_from_filtered:
  "(summaryStats c st = None \<longleftrightarrow> getFilteredAppointments c st = []) \<and>
   (\<forall>t. summaryStats c st = Some t \<longrightarrow>
      scheduledCount t =
        length (filter (\<lambda>a. getField a ''status'' = JStr ''scheduled'')
          (getFilteredAppointments c st)) \<and>
      completedCount t =
        length (filter (\<lambda>a. getField a ''status'' = JStr ''completed'')
          (getFilteredAppointments c st)) \<and>
      cancelledCount t =
        length (filter (\<lambda>a. getField a ''status'' = JStr ''cancelled'')
          (getFilteredAppointments c st)) \<and>
      pendingPaymentCount t =
        length (filter (\<lambda>a. getField a ''payment_status'' = JStr ''pending'')
          (getFilteredAppointments c st))) \<and>
   (searchTerm st = [] \<and> dateFilter st = ''all'' \<and> statusFilter st = ''completed'' \<and>
    length (appointments st) = 10 \<and>
    length (filter (\<lambda>a. getField a ''status'' = JStr ''completed'') (appointments st)) = 3 \<and>
    length (filter (\<lambda>a. getField a ''status'' = JStr ''scheduled'') (appointments st)) = 4 \<and>
    length (filter (\<lambda>a. getField a ''status'' = JStr ''cancelled'') (appointments st)) = 3 \<longrightarrow>
      length (getFilteredAppointments c st) = 3 \<and>
      (\<exists>p. summaryStats c st =
         Some \<lparr>scheduledCount = 0, completedCount = 3, cancelledCount = 0,
               pendingPaymentCount = p\<rparr>))"
proof -
  have a: "summaryStats c st = None \<longleftrightarrow> getFilteredAppointments c st = []"
    by (simp add: summaryStats_def Let_def)
  have b: "\<forall>t. summaryStats c st = Some t \<longrightarrow>
      scheduledCount t =
        length (filter (\<lambda>a. getField a ''status'' = JStr ''scheduled'')
          (getFilteredAppointments c st)) \<and>
      completedCount t =
        length (filter (\<lambda>a. getField a ''status'' = JStr ''completed'')
          (getFilteredAppointments c st)) \<and>
      cancelledCount t =
        length (filter (\<lambda>a. getField a ''status'' = JStr ''cancelled'')
          (getFilteredAppointments c st)) \<and>
      pendingPaymentCount t =
        length (filter (\<lambda>a. getField a ''payment_status'' = JStr ''pending'')
          (getFilteredAppointments c st))"
    by (auto simp: summaryStats_def Let_def split: if_splits)
  have d: "length (getFilteredAppointments c st) = 3 \<and>
      (\<exists>p. summaryStats c st =
         Some \<lparr>scheduledCount = 0, completedCount = 3, cancelledCount = 0,
               pendingPaymentCount = p\<rparr>)"
    if h: "searchTerm st = []" "dateFilter st = ''all''" "statusFilter st = ''completed''"
      "length (filter (\<lambda>a. getField a ''status'' = JStr ''completed'') (appointments st)) = 3"
  proof -
    have e: "getFilteredAppointments c st =
        filter (\<lambda>a. getField a ''status'' = JStr ''completed'') (appointments st)"
      using h by (simp add: filtered_by_status_only)
    have l: "length (getFilteredAppointments c st) = 3"
      using h e by simp
    have z: "filter (\<lambda>a. getField a ''status'' = JStr s)
               (filter (\<lambda>a. getField a ''status'' = JStr ''completed'') (appointments st)) = []"
      if "s \<noteq> ''completed''" for s
      using that by (auto simp: filter_empty_conv)
    have n: "filter (\<lambda>a. getField a ''status'' = JStr ''completed'') (appointments st) \<noteq> []"
      using h by auto
    show ?thesis
      using l h n z [of "''scheduled''"] z [of "''cancelled''"]
      by (simp add: summaryStats_def Let_def e)
  qed
  from a b d show ?thesis by blast
qed

theorem summary_from_filtered_witness:
  "length (getFilteredAppointments demo_clock ten_view) = 3 \<and>
   (\<exists>p. summaryStats demo_clock ten_view =
      Some \<lparr>scheduledCount = 0, completedCount = 3, cancelledCount = 0, pendingPaymentCount = p\<rparr>)"
  using summary_from_filtered [of demo_clock ten_view]
  by (simp add: ten_view_def list_initial_def ten_appointments_def sample_apt_def getField_def)

subsection \<open>Badges for a missing or unknown status\<close>




subsection \<open>The periodic refresh\<close>

lemma timer_inv_cleanup: "timer_inv s \<Longrightarrow> timers (cleanup s) = []"
  by (cases "interval s") (auto simp: timer_inv_def cleanup_def split: if_splits)

lemma timer_inv_effect: "timers s = [] \<Longrightarrow> mounted s \<Longrightarrow> timer_inv (effect s)"
  by (simp add: timer_inv_def effect_def setInterval_def)

lemma cleanup_fields:
  "mounted (cleanup s) = mounted s" "realTimeMode (cleanup s) = realTimeMode s"
  by (cases "interval s"; simp add: cleanup_def)+

lemma timer_inv_step:
  assumes "timer_inv s" and "reports_step s e = Some s'"
  shows "timer_inv s'"
proof (cases e)
  case Mount
  have "timers s = []" if "\<not> mounted s"
    using assms(1) that by (simp add: timer_inv_def)
  with assms Mount show ?thesis
    by (auto intro!: timer_inv_effect split: if_splits)
next
  case ToggleRealTimeMode
  have "timers (cleanup (s\<lparr>realTimeMode := \<not> realTimeMode s\<rparr>)) = []"
    using assms(1)
    by (cases "interval s") (auto simp: timer_inv_def cleanup_def split: if_splits)
  with assms ToggleRealTimeMode show ?thesis
    by (auto intro!: timer_inv_effect simp: cleanup_fields split: if_splits)
next
  case ChangeSelection
  with assms show ?thesis
    by (auto intro!: timer_inv_effect timer_inv_cleanup simp: cleanup_fields split: if_splits)
next
  case Unmount
  with assms timer_inv_cleanup [OF assms(1)] show ?thesis
    by (auto simp: timer_inv_def split: if_splits)
next
  case (TimerFires i)
  with assms show ?thesis
    by (auto simp: timer_inv_def split: if_splits)
qed

lemma timer_inv_run:
  "timer_inv s \<Longrightarrow> reports_run s es = Some s' \<Longrightarrow> timer_inv s'"
proof (induction es arbitrary: s)
  case Nil
  then show ?case by simp
next
  case (Cons e es)
  then show ?case
    by (auto split: option.splits dest: timer_inv_step)
qed

text \<open>
  C9. In every state the Reports view can reach: while it is mounted with real-time mode
  on, exactly one interval timer is registered, with the period of 30000 ms, and each
  firing of it calls the refresh once; while real-time mode is off or the view is
  unmounted, no timer is registered and no timer can fire. In particular no timer can
  fire in the state right after the unmount, nor in the state right after real-time mode
  is switched off.
\<close>

theorem timer_cancelled:
  assumes "reports_run reports_initial es = Some s"
  shows "(mounted s \<and> realTimeMode s \<longrightarrow>
            (\<exists>i. interval s = Some i \<and> timers s = [(i, 30000)] \<and>
               (\<exists>s'. reports_step s (TimerFires i) = Some s' \<and> refreshes s' = Suc (refreshes s)))) \<and>
         (\<not> (mounted s \<and> realTimeMode s) \<longrightarrow>
            timers s = [] \<and> (\<forall>i. reports_step s (TimerFires i) = None)) \<and>
         (\<forall>s'. reports_step s Unmount = Some s' \<longrightarrow>
            (\<forall>i. reports_step s' (TimerFires i) = None)) \<and>
         (\<forall>s'. realTimeMode s \<and> reports_step s ToggleRealTimeMode = Some s' \<longrightarrow>
            (\<forall>i. reports_step s' (TimerFires i) = None))"
proof -
  have "timer_inv reports_initial"
    by (simp add: timer_inv_def reports_initial_def)
  then have inv: "timer_inv s"
    using assms by (rule timer_inv_run)
  have off: "timers t = [] \<and> (\<forall>i. reports_step t (TimerFires i) = None)"
    if "timer_inv t" "\<not> (mounted t \<and> realTimeMode t)" for t
    using that by (auto simp: timer_inv_def)
  have u: "\<forall>i. reports_step s' (TimerFires i) = None" if "reports_step s Unmount = Some s'" for s'
  proof -
    have "timer_inv s'" using inv that by (rule timer_inv_step)
    moreover have "\<not> mounted s'" using that by (auto split: if_splits)
    ultimately show ?thesis using off by blast
  qed
  have t: "\<forall>i. reports_step s' (TimerFires i) = None"
    if "realTimeMode s" "reports_step s ToggleRealTimeMode = Some s'" for s'
  proof -
    have "timer_inv s'" using inv that(2) by (rule timer_inv_step)
    moreover have "\<not> realTimeMode s'"
      using that by (auto simp: effect_def cleanup_fields split: if_splits)
    ultimately show ?thesis using off by blast
  qed
  have on: "\<exists>i. interval s = Some i \<and> timers s = [(i, 30000)] \<and>
       (\<exists>s'. reports_step s (TimerFires i) = Some s' \<and> refreshes s' = Suc (refreshes s))"
    if "mounted s" "realTimeMode s"
    using inv that by (auto simp: timer_inv_def)
  from on off [OF inv] u t show ?thesis by blast
qed

theorem timer_cancelled_witness:
  "reports_run reports_initial [Mount, ToggleRealTimeMode, TimerFires 1, ToggleRealTimeMode] =
     Some \<lparr>realTimeMode = False, mounted = True, interval = None, timers = [],
           nextTimer = 2, refreshes = 1\<rparr> \<and>
   (\<forall>i. reports_step \<lparr>realTimeMode = False, mounted = True, interval = None, timers = [],
           nextTimer = 2, refreshes = 1\<rparr> (TimerFires i) = None) \<and>
   reports_run reports_initial [Mount, ToggleRealTimeMode] =
     Some \<lparr>realTimeMode = True, mounted = True, interval = Some 1, timers = [(1, 30000)],
           nextTimer = 2, refreshes = 0\<rparr> \<and>
   reports_step \<lparr>realTimeMode = True, mounted = True, interval = Some 1,
           timers = [(1, 30000)], nextTimer = 2, refreshes = 0\<rparr> Unmount =
     Some \<lparr>realTimeMode = True, mounted = False, interval = Some 1, timers = [],
           nextTimer = 2, refreshes = 0\<rparr> \<and>
   (\<forall>i. reports_step \<lparr>realTimeMode = True, mounted = False, interval = Some 1, timers = [],
           nextTimer = 2, refreshes = 0\<rparr> (TimerFires i) = None)"
proof -
  have off: "reports_run reports_initial
      [Mount, ToggleRealTimeMode, TimerFires 1, ToggleRealTimeMode] =
     Some \<lparr>realTimeMode = False, mounted = True, interval = None, timers = [],
           nextTimer = 2, refreshes = 1\<rparr>"
    by (simp add: reports_initial_def effect_def cleanup_def setInterval_def)
  have on: "reports_run reports_initial [Mount, ToggleRealTimeMode] =
     Some \<lparr>realTimeMode = True, mounted = True, interval = Some 1, timers = [(1, 30000)],
           nextTimer = 2, refreshes = 0\<rparr>"
    by (simp add: reports_initial_def effect_def cleanup_def setInterval_def)
  from timer_cancelled [OF off] timer_cancelled [OF on] off on show ?thesis
    by (simp add: cleanup_def)
qed

end
